theory Spec2Isabelle
  imports Main "HOL-Library.Sublist"
begin

section \<open>The console session of package lenovoconsole\<close>

text \<open>
  The package stands up one local HTTPS server per BMC: \<open>Initialize\<close> resolves the
  remote-presence port, renders the viewer page, picks the listen port and installs the
  handlers; \<open>Start\<close> launches the server; the handlers serve the page and relay the SDK
  files. Go's \<open>int\<close> is modelled by \<open>int\<close>: the code compares and copies port numbers and
  never computes with them. Strings are byte lists. What the code obtains from outside
  the process (the BMC's answers, the operating system's free port, the template engine's
  verdict on the template) is read from a \<open>world\<close> record, so a theorem stated for every
  world holds for every behaviour of the outside.
\<close>

subsection \<open>Errors\<close>

datatype error = Error string | Errorf string error

datatype outcome = Returned "error option" | Panicked string

subsection \<open>Bytes and decimal numbers\<close>

definition isLowerAZ :: "char \<Rightarrow> bool" where
  "isLowerAZ c = (97 \<le> (of_char c :: nat) \<and> (of_char c :: nat) \<le> 122)"

definition isUpperAZ :: "char \<Rightarrow> bool" where
  "isUpperAZ c = (65 \<le> (of_char c :: nat) \<and> (of_char c :: nat) \<le> 90)"

definition isDigit09 :: "char \<Rightarrow> bool" where
  "isDigit09 c = (48 \<le> (of_char c :: nat) \<and> (of_char c :: nat) \<le> 57)"

definition toLowerASCII :: "char \<Rightarrow> char" where
  "toLowerASCII c = (if isUpperAZ c then char_of ((of_char c :: nat) + 32) else c)"

definition toUpperASCII :: "char \<Rightarrow> char" where
  "toUpperASCII c = (if isLowerAZ c then char_of ((of_char c :: nat) - 32) else c)"

fun digits :: "nat \<Rightarrow> string" where
  "digits n = (if n < 10 then [char_of (48 + n)]
               else digits (n div 10) @ [char_of (48 + n mod 10)])"

declare digits.simps [simp del]

definition Itoa :: "int \<Rightarrow> string" where
  \<comment> \<open>the verb \<open>%d\<close> of \<open>fmt.Sprintf\<close> on an \<open>int\<close>\<close>
  "Itoa n = (if n < 0 then CHR ''-'' # digits (nat (- n)) else digits (nat n))"

subsection \<open>HTTP headers\<close>

text \<open>
  \<open>http.Header\<close> is a Go map from canonical keys to value lists. It is modelled by an
  association list: the order of the entries is the order in which \<open>range\<close> visits them,
  which Go leaves open. \<open>Add\<close> and \<open>Set\<close> canonicalise the key as
  \<open>textproto.CanonicalMIMEHeaderKey\<close> does: a key with a byte outside the token alphabet
  is left alone, otherwise the first letter and every letter after a dash is made upper
  case and the others lower case.
\<close>

type_synonym header = "(string \<times> string list) list"

definition validHeaderFieldByte :: "char \<Rightarrow> bool" where
  "validHeaderFieldByte c =
     (isLowerAZ c \<or> isUpperAZ c \<or> isDigit09 c \<or> c \<in> set ''!#$%&'*+-.^_`|~'')"

fun canonicalBytes :: "bool \<Rightarrow> string \<Rightarrow> string" where
  "canonicalBytes upper [] = []"
| "canonicalBytes upper (c # cs) =
     (if upper then toUpperASCII c else toLowerASCII c) # canonicalBytes (c = CHR ''-'') cs"

definition CanonicalMIMEHeaderKey :: "string \<Rightarrow> string" where
  "CanonicalMIMEHeaderKey s =
     (if list_all validHeaderFieldByte s then canonicalBytes True s else s)"

definition header_values :: "header \<Rightarrow> string \<Rightarrow> string list" where
  \<comment> \<open>\<open>h[key]\<close>: the nil slice when the key is absent\<close>
  "header_values h key = (case map_of h key of None \<Rightarrow> [] | Some vs \<Rightarrow> vs)"

fun header_put :: "header \<Rightarrow> string \<Rightarrow> string list \<Rightarrow> header" where
  \<comment> \<open>\<open>h[key] = vs\<close>\<close>
  "header_put [] key vs = [(key, vs)]"
| "header_put ((k, old) # h) key vs =
     (if k = key then (k, vs) # h else (k, old) # header_put h key vs)"

definition Header_Add :: "header \<Rightarrow> string \<Rightarrow> string \<Rightarrow> header" where
  "Header_Add h key v =
     (let k = CanonicalMIMEHeaderKey key in header_put h k (header_values h k @ [v]))"

definition Header_Set :: "header \<Rightarrow> string \<Rightarrow> string \<Rightarrow> header" where
  "Header_Set h key v = header_put h (CanonicalMIMEHeaderKey key) [v]"

text \<open>
  The two nested \<open>range\<close> loops of \<open>proxySDKHandler\<close>:
  \<^verbatim>\<open>for key, values := range src { for _, value := range values { dst.Add(key, value) } }\<close>
\<close>

fun add_values :: "header \<Rightarrow> string \<Rightarrow> string list \<Rightarrow> header" where
  "add_values dst key [] = dst"
| "add_values dst key (v # vs) = add_values (Header_Add dst key v) key vs"

fun copy_header :: "header \<Rightarrow> header \<Rightarrow> header" where
  "copy_header dst [] = dst"
| "copy_header dst ((key, vs) # src) = copy_header (add_values dst key vs) src"

definition canonical_header :: "header \<Rightarrow> bool" where
  \<comment> \<open>what net/http hands out: distinct canonical keys, each with at least one value\<close>
  "canonical_header h =
     (distinct (map fst h) \<and>
      list_all (\<lambda>(k, vs). CanonicalMIMEHeaderKey k = k \<and> vs \<noteq> []) h)"

subsection \<open>Requests, responses and the outside world\<close>

record request =
  Method :: string
  URL_Path :: string
  Header :: header
  Body :: string

record upstream_request =
  req_Method :: string
  req_URL :: string
  req_Header :: header
  req_BasicAuth :: "(string \<times> string) option"
  req_Body :: "string option"

record upstream_response =
  StatusCode :: int
  resp_Header :: header
  resp_Body :: string

text \<open>
  A response body read as JSON, as far as \<open>Decode\<close> into \<open>struct { Port int }\<close> looks at
  it: a member's value is an integer literal, \<open>null\<close>, or anything else.
\<close>

datatype json_value = JInt int | JNull | JOther

datatype json_doc = Malformed | JObject "(string \<times> json_value) list" | JValue json_value

text \<open>
  The static text of \<open>htmlTemplate\<close> (template.go): the six stretches of text around its
  five actions, as the template engine emits them. The engine is \<open>html/template\<close>, which
  drops comments from the static text, so the stretches are not the source text byte for
  byte; they are taken from the world.
\<close>

record static_text =
  st_head :: string
  st_instr :: string
  st_ip :: string
  st_port :: string
  st_user :: string
  st_tail :: string

text \<open>
  The outside world: whether \<open>net/url\<close> accepts a URL; what \<open>client.Do\<close> returns for a
  request (certificate verification is switched off in both clients, so no field
  speaks of certificates); how a body reads as JSON; the errors, if any, of parsing and
  executing the template; the result of \<open>net.Listen("tcp", "127.0.0.1:0")\<close>, an error
  or the port assigned; the error, if any, of \<open>Server.Close\<close>.
\<close>

record world =
  url_parses :: "string \<Rightarrow> bool"
  client_Do :: "upstream_request \<Rightarrow> error + upstream_response"
  json_read :: "string \<Rightarrow> json_doc"
  tmpl_parse_err :: "error option"
  tmpl_exec_err :: "error option"
  tmpl_static :: static_text
  net_Listen0 :: "error + int"
  server_Close :: "error option"

definition validMethod :: "string \<Rightarrow> bool" where
  "validMethod m = (m \<noteq> [] \<and> list_all validHeaderFieldByte m)"

definition http_NewRequest ::
  "world \<Rightarrow> string \<Rightarrow> string \<Rightarrow> string option \<Rightarrow> error + upstream_request" where
  "http_NewRequest wd method url body =
     (let m = (if method = [] then ''GET'' else method) in
      if \<not> validMethod m then Inl (Error ''net/http: invalid method'')
      else if \<not> url_parses wd url then Inl (Error ''parse: invalid URL'')
      else Inr \<lparr>req_Method = m, req_URL = url, req_Header = [],
                req_BasicAuth = None, req_Body = body\<rparr>)"

subsection \<open>Decoding the port\<close>

text \<open>
  \<open>json.NewDecoder(resp.Body).Decode(&result)\<close> with \<open>result\<close> a zeroed
  \<open>struct { Port int `json:"port"` }\<close>. A body that is not JSON leaves the struct alone
  and is an error. In an object, the members are stored in order; the key matches the
  field without regard to case; an integer that fits the (64-bit) \<open>int\<close> is stored, and
  \<open>null\<close> is skipped. encoding/json documents that a value not appropriate for the field
  is skipped, the decoding is completed as well as possible, and the earliest such
  mismatch is the error returned. The result is the field and the error.
\<close>

definition fits_int :: "int \<Rightarrow> bool" where
  "fits_int n = (- (2 ^ 63) \<le> n \<and> n < 2 ^ 63)"

fun decode_members ::
  "int \<times> error option \<Rightarrow> (string \<times> json_value) list \<Rightarrow> int \<times> error option" where
  "decode_members acc [] = acc"
| "decode_members (port, err) ((key, v) # ms) =
     (if map toLowerASCII key = ''port'' then
        (case v of
           JInt n \<Rightarrow>
             if fits_int n then decode_members (n, err) ms
             else decode_members
                    (port, if err = None then Some (Error ''json: cannot unmarshal number'') else err) ms
         | JNull \<Rightarrow> decode_members (port, err) ms
         | JOther \<Rightarrow>
             decode_members
               (port, if err = None then Some (Error ''json: cannot unmarshal value'') else err) ms)
      else decode_members (port, err) ms)"

definition Decode_Port :: "json_doc \<Rightarrow> int \<times> error option" where
  "Decode_Port doc =
     (case doc of
        Malformed \<Rightarrow> (0, Some (Error ''invalid character''))
      | JObject ms \<Rightarrow> decode_members (0, None) ms
      | JValue JNull \<Rightarrow> (0, None)
      | JValue _ \<Rightarrow> (0, Some (Error ''json: cannot unmarshal value'')))"

subsection \<open>The session\<close>

record ConsoleConfig =
  BMCIP :: string
  Username :: string
  Password :: string
  RPPort :: int
  UseFirefox :: bool
  ServerPort :: int

datatype handler = consoleHandler_fn | certHandler_fn | proxyHandler_fn

type_synonym ServeMux = "(string \<times> handler) list"

record http_Server =
  Addr :: string
  TLS_MinVersion :: string
  srv_closed :: bool

record Console =
  config :: ConsoleConfig
  serverPort :: int
  server :: "http_Server option"
  consoleHTML :: string
  mux :: ServeMux

definition NewConsole :: "ConsoleConfig \<Rightarrow> Console" where
  "NewConsole cfg =
     \<lparr>config = cfg, serverPort = 0, server = None, consoleHTML = [], mux = []\<rparr>"

definition GetRPPort :: "world \<Rightarrow> string \<Rightarrow> string \<Rightarrow> string \<Rightarrow> int \<times> error option" where
  "GetRPPort wd bmcIP username password =
     (case http_NewRequest wd ''GET'' (''https://'' @ bmcIP @ ''/api/providers/rp_port'') None of
        Inl err \<Rightarrow> (3900, None)
      | Inr req \<Rightarrow>
          (case client_Do wd (req\<lparr>req_BasicAuth := Some (username, password)\<rparr>) of
             Inl err \<Rightarrow> (3900, None)
           | Inr resp \<Rightarrow>
               (let result_Port = fst (Decode_Port (json_read wd (resp_Body resp))) in
                if result_Port > 0 then (result_Port, None) else (3900, None))))"

subsection \<open>Rendering the page\<close>

text \<open>
  \<open>generateHTML\<close> parses \<open>htmlTemplate\<close> with \<open>html/template\<close> and executes it on the
  four fields. The engine escapes each action for the place it stands in:
  \<^item> line 88, \<^verbatim>\<open><li>Click "Proceed to {{.BMCIP}}" ...\<close>: HTML text;
  \<^item> lines 99, 101 and 102, \<^verbatim>\<open>bmcIP: '{{.BMCIP}}'\<close> and the two credentials: a
    single-quoted JavaScript string inside \<^verbatim>\<open><script>\<close>;
  \<^item> line 100, \<^verbatim>\<open>rpPort: {{.RPPort}}\<close>: a JavaScript value.
  The escapers follow the replacement tables of html/template (Go 1.22, the version of
  the Dockerfile). They work on runes; on bytes that is a byte-wise replacement, except
  for U+2028 and U+2029, whose UTF-8 encodings E2 80 A8 and E2 80 A9 are replaced in
  JavaScript strings.
\<close>

definition bs :: char where
  "bs = CHR 0x5C"

definition hex_digit :: "nat \<Rightarrow> char" where
  "hex_digit n = (if n < 10 then char_of (48 + n) else char_of (87 + n))"

definition htmlReplacement :: "char \<Rightarrow> string" where
  \<open>htmlReplacement c =
     (if c = CHR 0x00 then [CHR 0xEF, CHR 0xBF, CHR 0xBD]
      else if c = CHR 0x22 then ''&#34;''
      else if c = CHR ''&'' then ''&amp;''
      else if c = CHR 0x27 then ''&#39;''
      else if c = CHR ''+'' then ''&#43;''
      else if c = CHR ''<'' then ''&lt;''
      else if c = CHR ''>'' then ''&gt;''
      else [c])\<close>

definition htmlEscaper :: "string \<Rightarrow> string" where
  "htmlEscaper s = concat (map htmlReplacement s)"

definition jsStrReplacement :: "char \<Rightarrow> string" where
  \<open>jsStrReplacement c =
     (if c = CHR 0x09 then [bs, CHR ''t'']
      else if c = CHR 0x0A then [bs, CHR ''n'']
      else if c = CHR 0x0C then [bs, CHR ''f'']
      else if c = CHR 0x0D then [bs, CHR ''r'']
      else if (of_char c :: nat) < 32
        then bs # ''u00'' @ [hex_digit ((of_char c :: nat) div 16), hex_digit ((of_char c :: nat) mod 16)]
      else if c = CHR 0x22 then bs # ''u0022''
      else if c = CHR 0x60 then bs # ''u0060''
      else if c = CHR ''&'' then bs # ''u0026''
      else if c = CHR 0x27 then bs # ''u0027''
      else if c = CHR ''+'' then bs # ''u002b''
      else if c = CHR ''/'' then [bs, CHR ''/'']
      else if c = CHR ''<'' then bs # ''u003c''
      else if c = CHR ''>'' then bs # ''u003e''
      else if c = bs then [bs, bs]
      else [c])\<close>

fun jsStrEscaper :: "string \<Rightarrow> string" where
  "jsStrEscaper [] = []"
| "jsStrEscaper [a] = jsStrReplacement a"
| "jsStrEscaper [a, b] = jsStrReplacement a @ jsStrReplacement b"
| "jsStrEscaper (a # b # c # cs) =
     (if a = CHR 0xE2 \<and> b = CHR 0x80 \<and> c = CHR 0xA8 then bs # ''u2028'' @ jsStrEscaper cs
      else if a = CHR 0xE2 \<and> b = CHR 0x80 \<and> c = CHR 0xA9 then bs # ''u2029'' @ jsStrEscaper cs
      else jsStrReplacement a @ jsStrEscaper (b # c # cs))"

definition jsValEscaper_int :: "int \<Rightarrow> string" where
  \<comment> \<open>the number as JSON, with a space on each side to keep it apart from its neighbours\<close>
  "jsValEscaper_int n = '' '' @ Itoa n @ '' ''"

record page_data =
  d_BMCIP :: string
  d_RPPort :: int
  d_BMCUsername :: string
  d_BMCPassword :: string

definition htmlTemplate_Execute :: "static_text \<Rightarrow> page_data \<Rightarrow> string" where
  "htmlTemplate_Execute st d =
     st_head st @ htmlEscaper (d_BMCIP d) @
     st_instr st @ jsStrEscaper (d_BMCIP d) @
     st_ip st @ jsValEscaper_int (d_RPPort d) @
     st_port st @ jsStrEscaper (d_BMCUsername d) @
     st_user st @ jsStrEscaper (d_BMCPassword d) @
     st_tail st"

definition generateHTML :: "world \<Rightarrow> Console \<Rightarrow> error option \<times> Console" where
  "generateHTML wd c =
     (case tmpl_parse_err wd of
        Some err \<Rightarrow> (Some (Errorf ''failed to parse template'' err), c)
      | None \<Rightarrow>
          (let data = \<lparr>d_BMCIP = BMCIP (config c), d_RPPort = RPPort (config c),
                       d_BMCUsername = Username (config c),
                       d_BMCPassword = Password (config c)\<rparr> in
           case tmpl_exec_err wd of
             Some err \<Rightarrow> (Some (Errorf ''failed to execute template'' err), c)
           | None \<Rightarrow> (None, c\<lparr>consoleHTML := htmlTemplate_Execute (tmpl_static wd) data\<rparr>)))"

definition findAvailablePort :: "world \<Rightarrow> int \<times> error option" where
  "findAvailablePort wd =
     (case net_Listen0 wd of Inl err \<Rightarrow> (0, Some err) | Inr port \<Rightarrow> (port, None))"

subsection \<open>Installing the handlers\<close>

text \<open>
  \<open>ServeMux.HandleFunc\<close> panics on an empty pattern and on a pattern registered before.
  \<open>setupHandlers\<close> registers eleven patterns one after the other; a panic leaves the
  patterns registered so far in place.
\<close>

definition ServeMux_HandleFunc :: "ServeMux \<Rightarrow> string \<Rightarrow> handler \<Rightarrow> string + ServeMux" where
  "ServeMux_HandleFunc m pattern h =
     (if pattern = [] then Inl ''http: invalid pattern''
      else if pattern \<in> set (map fst m) then Inl (''http: multiple registrations for '' @ pattern)
      else Inr (m @ [(pattern, h)]))"

fun register_seq :: "ServeMux \<Rightarrow> (string \<times> handler) list \<Rightarrow> string option \<times> ServeMux" where
  "register_seq m [] = (None, m)"
| "register_seq m ((pattern, h) # rest) =
     (case ServeMux_HandleFunc m pattern h of
        Inl msg \<Rightarrow> (Some msg, m)
      | Inr m' \<Rightarrow> register_seq m' rest)"

definition handler_table :: "(string \<times> handler) list" where
  "handler_table =
     [(''/'', consoleHandler_fn),
      (''/cert.pem'', certHandler_fn),
      (''/SDK_Pilot4/'', proxyHandler_fn),
      (''/offscreenworker.js'', proxyHandler_fn),
      (''/mouseworker.js'', proxyHandler_fn),
      (''/utility.js'', proxyHandler_fn),
      (''/mediaTypes.js'', proxyHandler_fn),
      (''/rphandlers.js'', proxyHandler_fn),
      (''/websockethandler.js'', proxyHandler_fn),
      (''/virtualkeyboard.js'', proxyHandler_fn),
      (''/mediaworkerhandler.js'', proxyHandler_fn)]"

definition setupHandlers :: "Console \<Rightarrow> string option \<times> Console" where
  "setupHandlers c =
     (case register_seq (mux c) handler_table of (p, m) \<Rightarrow> (p, c\<lparr>mux := m\<rparr>))"

subsection \<open>Initialize, Start, Stop\<close>

definition Initialize :: "world \<Rightarrow> Console \<Rightarrow> outcome \<times> Console" where
  "Initialize wd c =
     (case (if RPPort (config c) = 0 then
              (case GetRPPort wd (BMCIP (config c)) (Username (config c)) (Password (config c)) of
                 (port, Some err) \<Rightarrow> (Some (Errorf ''failed to get RP port'' err), c)
               | (port, None) \<Rightarrow> (None, c\<lparr>config := (config c)\<lparr>RPPort := port\<rparr>\<rparr>))
            else (None, c)) of
        (Some e, c1) \<Rightarrow> (Returned (Some e), c1)
      | (None, c1) \<Rightarrow>
          (case generateHTML wd c1 of
             (Some err, c2) \<Rightarrow> (Returned (Some (Errorf ''failed to generate HTML'' err)), c2)
           | (None, c2) \<Rightarrow>
               (case (if ServerPort (config c2) = 0 then
                        (case findAvailablePort wd of
                           (port, Some err) \<Rightarrow>
                             (Some (Errorf ''failed to find available port'' err), c2)
                         | (port, None) \<Rightarrow> (None, c2\<lparr>serverPort := port\<rparr>))
                      else (None, c2\<lparr>serverPort := ServerPort (config c2)\<rparr>)) of
                  (Some e, c3) \<Rightarrow> (Returned (Some e), c3)
                | (None, c3) \<Rightarrow>
                    (case setupHandlers c3 of
                       (Some msg, c4) \<Rightarrow> (Panicked msg, c4)
                     | (None, c4) \<Rightarrow> (Returned None, c4)))))"

text \<open>
  \<open>Start\<close> builds a new \<open>http.Server\<close> for the session's port, stores it in the session
  and launches \<open>ListenAndServeTLS\<close> on it in a goroutine, whose error is printed and not
  returned. The third component of the result is the server the goroutine was launched
  for. The server's handler is the session's mux.
\<close>

definition Start :: "Console \<Rightarrow> error option \<times> Console \<times> http_Server" where
  "Start c =
     (let srv = \<lparr>Addr = '':'' @ Itoa (serverPort c), TLS_MinVersion = ''TLS1.2'',
                  srv_closed = False\<rparr>
      in (None, c\<lparr>server := Some srv\<rparr>, srv))"

definition Stop :: "world \<Rightarrow> Console \<Rightarrow> error option \<times> Console" where
  "Stop wd c =
     (case server c of
        Some srv \<Rightarrow> (server_Close wd, c\<lparr>server := Some (srv\<lparr>srv_closed := True\<rparr>)\<rparr>)
      | None \<Rightarrow> (None, c))"

definition GetURL :: "Console \<Rightarrow> string" where
  "GetURL c = ''https://localhost:'' @ Itoa (serverPort c)"

definition GetPort :: "Console \<Rightarrow> int" where
  "GetPort c = serverPort c"

subsection \<open>The handlers\<close>

text \<open>
  A \<open>ResponseWriter\<close> records what a handler hands it, as \<open>httptest.ResponseRecorder\<close>
  does: the header map, the status (set by the first \<open>WriteHeader\<close>, or to 200 by the
  first \<open>Write\<close>), and the bytes written. \<open>WriteHeader\<close> panics on a code below 100 or
  above 999; the one caller that passes a code it did not choose checks that first.
\<close>

record ResponseWriter =
  w_Header :: header
  w_status :: "int option"
  w_body :: string

definition newResponseWriter :: ResponseWriter where
  "newResponseWriter = \<lparr>w_Header = [], w_status = None, w_body = []\<rparr>"

definition invalidWriteHeaderCode :: "int \<Rightarrow> bool" where
  "invalidWriteHeaderCode code = (code < 100 \<or> code > 999)"

definition WriteHeader :: "ResponseWriter \<Rightarrow> int \<Rightarrow> ResponseWriter" where
  "WriteHeader w code = (if w_status w = None then w\<lparr>w_status := Some code\<rparr> else w)"

definition Write :: "ResponseWriter \<Rightarrow> string \<Rightarrow> ResponseWriter" where
  "Write w b = (let w1 = WriteHeader w 200 in w1\<lparr>w_body := w_body w1 @ b\<rparr>)"

definition http_Error :: "ResponseWriter \<Rightarrow> string \<Rightarrow> int \<Rightarrow> ResponseWriter" where
  "http_Error w msg code =
     (let h1 = Header_Set (w_Header w) ''Content-Type'' ''text/plain; charset=utf-8'';
          h2 = Header_Set h1 ''X-Content-Type-Options'' ''nosniff''
      in Write (WriteHeader (w\<lparr>w_Header := h2\<rparr>) code) (msg @ [CHR 0x0A]))"

definition certHTML :: string where
  \<open>certHTML =
     ''<!DOCTYPE html>\<newline>'' @
     ''<html>\<newline>'' @
     ''<head>\<newline>'' @
     ''    <title>Certificate Acceptance</title>\<newline>'' @
     ''    <script>\<newline>'' @
     ''        function acceptCertificate() {\<newline>'' @
     ''            if (window.opener && !window.opener.closed) {\<newline>'' @
     ''                try {\<newline>'' @
     ''                    window.opener.postMessage({\<newline>'' @
     ''                        type: 'certificate',\<newline>'' @
     ''                        action: 'accept',\<newline>'' @
     ''                        accepted: true\<newline>'' @
     ''                    }, '*');\<newline>'' @
     ''                    window.opener.postMessage('CERT_ACCEPTED', '*');\<newline>'' @
     ''                } catch(e) {\<newline>'' @
     ''                    console.log('Could not post message to opener:', e);\<newline>'' @
     ''                }\<newline>'' @
     ''            }\<newline>'' @
     ''            \<newline>'' @
     ''            try {\<newline>'' @
     ''                localStorage.setItem('rpviewer_cert_accepted', 'true');\<newline>'' @
     ''            } catch(e) {\<newline>'' @
     ''                console.log('Could not set localStorage:', e);\<newline>'' @
     ''            }\<newline>'' @
     ''            \<newline>'' @
     ''            if (window.opener && window.opener.rpCertAccepted) {\<newline>'' @
     ''                try {\<newline>'' @
     ''                    window.opener.rpCertAccepted();\<newline>'' @
     ''                } catch(e) {\<newline>'' @
     ''                    console.log('Could not call rpCertAccepted:', e);\<newline>'' @
     ''                }\<newline>'' @
     ''            }\<newline>'' @
     ''            \<newline>'' @
     ''            setTimeout(function() {\<newline>'' @
     ''                window.close();\<newline>'' @
     ''            }, 100);\<newline>'' @
     ''        }\<newline>'' @
     ''        \<newline>'' @
     ''        window.onload = acceptCertificate;\<newline>'' @
     ''        acceptCertificate();\<newline>'' @
     ''    </script>\<newline>'' @
     ''</head>\<newline>'' @
     ''<body style="font-family: Arial, sans-serif; padding: 20px;">\<newline>'' @
     ''    <h3>Certificate Handler</h3>\<newline>'' @
     ''    <p>The SSL certificate has been accepted. This window will close automatically.</p>\<newline>'' @
     ''</body>\<newline>'' @
     ''</html>''\<close>

definition consoleHandler :: "Console \<Rightarrow> ResponseWriter \<Rightarrow> request \<Rightarrow> ResponseWriter" where
  "consoleHandler c w r =
     Write (w\<lparr>w_Header := Header_Set (w_Header w) ''Content-Type'' ''text/html''\<rparr>) (consoleHTML c)"

definition certHandler :: "ResponseWriter \<Rightarrow> request \<Rightarrow> ResponseWriter" where
  "certHandler w r =
     Write (w\<lparr>w_Header := Header_Set (w_Header w) ''Content-Type'' ''text/html''\<rparr>) certHTML"

datatype served =
  Handled ResponseWriter
| MovedPermanently string
| NotFound
| BadRequest
| HandlerPanic string

text \<open>
  The handler returned by \<open>proxySDKHandler\<close>. The second component of the result lists
  the requests sent to the BMC.
\<close>

definition proxySDKHandler ::
  "world \<Rightarrow> Console \<Rightarrow> ResponseWriter \<Rightarrow> request \<Rightarrow> served \<times> upstream_request list" where
  "proxySDKHandler wd c w r =
     (let bmcURL = ''https://'' @ BMCIP (config c) @ URL_Path r in
      case http_NewRequest wd (Method r) bmcURL None of
        Inl err \<Rightarrow> (Handled (http_Error w ''Failed to create request'' 500), [])
      | Inr req0 \<Rightarrow>
          (let req = req0\<lparr>req_Header := copy_header (req_Header req0) (Header r)\<rparr> in
           case client_Do wd req of
             Inl err \<Rightarrow> (Handled (http_Error w ''Failed to fetch from BMC'' 500), [req])
           | Inr resp \<Rightarrow>
               (let w1 = w\<lparr>w_Header := copy_header (w_Header w) (resp_Header resp)\<rparr>;
                    w2 = (if suffix ''.js'' (URL_Path r)
                          then w1\<lparr>w_Header :=
                                    Header_Set (w_Header w1) ''Content-Type'' ''application/javascript''\<rparr>
                          else w1)
                in if invalidWriteHeaderCode (StatusCode resp)
                   then (HandlerPanic ''invalid WriteHeader code'', [req])
                   else (Handled (Write (WriteHeader w2 (StatusCode resp)) (resp_Body resp)),
                         [req]))))"

subsection \<open>Routing\<close>

text \<open>
  \<open>ServeMux\<close> of net/http, for patterns without host, method or wildcard, which are the
  only ones \<open>setupHandlers\<close> registers. A pattern that ends in a slash matches every path
  it is a prefix of, any other pattern matches the equal path, and the longest matching
  pattern wins. The path of a request other than CONNECT is cleaned first (\<open>cleanPath\<close>:
  a leading slash, no empty, \<open>.\<close> or \<open>..\<close> element, the trailing slash kept). A path
  \<open>/tree\<close> that is not registered while \<open>/tree/\<close> is, is redirected there; a path that
  cleaning changes is redirected to the cleaned path; the request target \<open>*\<close> is
  answered with 400 before any routing. \<open>URL_Path\<close> is \<open>r.URL.Path\<close>, the path the
  handlers read; a request whose escaped path differs from it is not told apart.
\<close>

fun split_slash :: "string \<Rightarrow> string list" where
  "split_slash [] = [[]]"
| "split_slash (c # cs) =
     (if c = CHR ''/'' then [] # split_slash cs
      else (case split_slash cs of [] \<Rightarrow> [[c]] | e # es \<Rightarrow> (c # e) # es))"

fun clean_elems :: "string list \<Rightarrow> string list \<Rightarrow> string list" where
  "clean_elems kept [] = rev kept"
| "clean_elems kept (e # es) =
     (if e = [] \<or> e = ''.'' then clean_elems kept es
      else if e = ''..'' then clean_elems (tl kept) es
      else clean_elems (e # kept) es)"

fun join_slash :: "string list \<Rightarrow> string" where
  "join_slash [] = []"
| "join_slash [e] = e"
| "join_slash (e # es) = e @ ''/'' @ join_slash es"

definition path_Clean :: "string \<Rightarrow> string" where
  \<comment> \<open>\<open>path.Clean\<close> on a rooted path, the only kind \<open>cleanPath\<close> passes to it\<close>
  "path_Clean p = CHR ''/'' # join_slash (clean_elems [] (split_slash p))"

definition cleanPath :: "string \<Rightarrow> string" where
  "cleanPath p =
     (if p = [] then ''/''
      else (let p1 = (if hd p \<noteq> CHR ''/'' then CHR ''/'' # p else p);
                np = path_Clean p1
            in if last p1 = CHR ''/'' \<and> np \<noteq> ''/'' then np @ ''/'' else np))"

definition pathMatch :: "string \<Rightarrow> string \<Rightarrow> bool" where
  "pathMatch pattern path =
     (if pattern = [] then False
      else if last pattern \<noteq> CHR ''/'' then pattern = path
      else prefix pattern path)"

fun ServeMux_match :: "ServeMux \<Rightarrow> string \<Rightarrow> (string \<times> handler) option" where
  "ServeMux_match [] path = None"
| "ServeMux_match ((pattern, h) # m) path =
     (case ServeMux_match m path of
        None \<Rightarrow> if pathMatch pattern path then Some (pattern, h) else None
      | Some (p', h') \<Rightarrow>
          if pathMatch pattern path \<and> length p' < length pattern then Some (pattern, h)
          else Some (p', h'))"

definition shouldRedirect :: "ServeMux \<Rightarrow> string \<Rightarrow> bool" where
  "shouldRedirect m path =
     (path \<noteq> [] \<and> last path \<noteq> CHR ''/'' \<and> path \<notin> set (map fst m) \<and>
      (path @ ''/'') \<in> set (map fst m))"

datatype route = Route handler | RedirectTo string | NoRoute

definition ServeMux_lookup :: "ServeMux \<Rightarrow> string \<Rightarrow> route" where
  "ServeMux_lookup m path =
     (case ServeMux_match m path of None \<Rightarrow> NoRoute | Some (p, h) \<Rightarrow> Route h)"

definition ServeMux_findHandler :: "ServeMux \<Rightarrow> request \<Rightarrow> route" where
  "ServeMux_findHandler m r =
     (if Method r = ''CONNECT'' then
        (if shouldRedirect m (URL_Path r) then RedirectTo (URL_Path r @ ''/'')
         else ServeMux_lookup m (URL_Path r))
      else
        (let path = cleanPath (URL_Path r) in
         if shouldRedirect m path then RedirectTo (path @ ''/'')
         else if path \<noteq> URL_Path r then RedirectTo path
         else ServeMux_lookup m (URL_Path r)))"

text \<open>
  What the session's server answers to a request once it has accepted the connection:
  \<open>ServeMux.ServeHTTP\<close> on the session's mux, each handler starting from an empty
  \<open>ResponseWriter\<close>.
\<close>

definition serve :: "world \<Rightarrow> Console \<Rightarrow> request \<Rightarrow> served \<times> upstream_request list" where
  "serve wd c r =
     (if URL_Path r = ''*'' then (BadRequest, [])
      else (case ServeMux_findHandler (mux c) r of
              NoRoute \<Rightarrow> (NotFound, [])
            | RedirectTo u \<Rightarrow> (MovedPermanently u, [])
            | Route h \<Rightarrow>
                (case h of
                   consoleHandler_fn \<Rightarrow> (Handled (consoleHandler c newResponseWriter r), [])
                 | certHandler_fn \<Rightarrow> (Handled (certHandler newResponseWriter r), [])
                 | proxyHandler_fn \<Rightarrow> proxySDKHandler wd c newResponseWriter r)))"

text \<open>The calls a caller can make on a session after \<open>Initialize\<close>, in any order.\<close>

datatype op = OpStart | OpStop world | OpServe world request

fun run_op :: "Console \<Rightarrow> op \<Rightarrow> Console" where
  "run_op c OpStart = fst (snd (Start c))"
| "run_op c (OpStop wd) = snd (Stop wd c)"
| "run_op c (OpServe wd r) = c"

definition run_ops :: "Console \<Rightarrow> op list \<Rightarrow> Console" where
  "run_ops c ops = foldl run_op c ops"

subsection \<open>Notions used in the statements\<close>

definition resolved_RPPort :: "world \<Rightarrow> ConsoleConfig \<Rightarrow> int" where
  \<comment> \<open>the remote-presence port after the first step of \<open>Initialize\<close>\<close>
  "resolved_RPPort wd cfg =
     (if RPPort cfg = 0 then fst (GetRPPort wd (BMCIP cfg) (Username cfg) (Password cfg))
      else RPPort cfg)"

definition valid_port :: "int \<Rightarrow> bool" where
  "valid_port p = (1 \<le> p \<and> p \<le> 65535)"

definition allow_listed :: "string \<Rightarrow> bool" where
  \<comment> \<open>the path matches a pattern that \<open>setupHandlers\<close> registers for the proxy handler\<close>
  "allow_listed path =
     list_ex (\<lambda>(p, h). h = proxyHandler_fn \<and> pathMatch p path) handler_table"

definition plain_byte :: "char \<Rightarrow> bool" where
  \<comment> \<open>letters, digits and the punctuation of host names and addresses: bytes that no
      escaper of the template engine touches\<close>
  "plain_byte c = (isLowerAZ c \<or> isUpperAZ c \<or> isDigit09 c \<or> c \<in> set ''.-_:[]'')"

definition lbrace :: char where
  "lbrace = CHR 0x7B"




subsection \<open>Example sessions\<close>

text \<open>
  Concrete inputs for the examples below. \<open>example_static\<close> abridges the static text to
  the template lines that hold the actions. \<open>bmc_world body doc\<close> is a BMC that answers
  the port lookup with \<open>body\<close>, which reads as the JSON document \<open>doc\<close>, and every other
  request with a script served as \<open>text/plain\<close>; the operating system hands out port
  49152. The two configurations are those of \<open>simpleConsoleExample\<close> and
  \<open>programmaticExample\<close>.
\<close>

definition example_static :: static_text where
  \<open>example_static =
     \<lparr>st_head = ''<li>Click "Proceed to '',
      st_instr = ''" or "Accept the Risk and Continue"</li><script>const config = { bmcIP: '' @ [CHR 0x27],
      st_ip = CHR 0x27 # '', rpPort: '',
      st_port = '', bmcUsername: '' @ [CHR 0x27],
      st_user = CHR 0x27 # '', bmcPassword: '' @ [CHR 0x27],
      st_tail = CHR 0x27 # '' };</script>''\<rparr>\<close>

definition bmc_world :: "string \<Rightarrow> json_doc \<Rightarrow> world" where
  "bmc_world body doc =
     \<lparr>url_parses = (\<lambda>u. True),
      client_Do = (\<lambda>q.
        if suffix ''/api/providers/rp_port'' (req_URL q)
        then Inr \<lparr>StatusCode = 200, resp_Header = [(''Content-Type'', [''application/json''])],
                  resp_Body = body\<rparr>
        else Inr \<lparr>StatusCode = 200, resp_Header = [(''Content-Type'', [''text/plain''])],
                  resp_Body = ''var RPViewer;''\<rparr>),
      json_read = (\<lambda>b. if b = body then doc else Malformed),
      tmpl_parse_err = None, tmpl_exec_err = None, tmpl_static = example_static,
      net_Listen0 = Inr 49152, server_Close = None\<rparr>"

definition body_3901 :: string where
  \<open>body_3901 = ''{"port": 3901}''\<close>

definition doc_3901 :: json_doc where
  "doc_3901 = JObject [(''port'', JInt 3901)]"


definition doc_dup :: json_doc where
  "doc_dup = JObject [(''port'', JInt 3901), (''port'', JOther)]"

definition body_70000 :: string where
  \<open>body_70000 = ''{"port": 70000}''\<close>

definition doc_70000 :: json_doc where
  "doc_70000 = JObject [(''port'', JInt 70000)]"

definition simple_config :: ConsoleConfig where
  "simple_config =
     \<lparr>BMCIP = ''10.145.127.12'', Username = ''USERID'', Password = ''PASSW0RD'',
      RPPort = 0, UseFirefox = True, ServerPort = 0\<rparr>"

definition programmatic_config :: ConsoleConfig where
  "programmatic_config =
     \<lparr>BMCIP = ''10.145.127.12'', Username = ''admin'', Password = ''password'',
      RPPort = 0, UseFirefox = False, ServerPort = 8443\<rparr>"

definition started_example :: Console where
  \<comment> \<open>\<open>programmaticExample\<close> after \<open>Initialize\<close> and \<open>Start\<close>\<close>
  "started_example =
     fst (snd (Start (snd (Initialize (bmc_world body_3901 doc_3901)
                              (NewConsole programmatic_config)))))"

definition favicon_request :: request where
  "favicon_request = \<lparr>Method = ''GET'', URL_Path = ''/favicon.ico'', Header = [], Body = []\<rparr>"

definition root_request :: request where
  "root_request =
     \<lparr>Method = ''GET'', URL_Path = ''/'', Header = [(''Accept'', [''text/html''])], Body = []\<rparr>"

definition script_request :: request where
  "script_request =
     \<lparr>Method = ''GET'', URL_Path = ''/SDK_Pilot4/rpviewer.js'',
      Header = [(''Accept'', [''*/*'']), (''Accept-Encoding'', [''gzip'', ''br''])], Body = []\<rparr>"

definition upload_request :: request where
  "upload_request =
     \<lparr>Method = ''POST'', URL_Path = ''/SDK_Pilot4/upload'',
      Header = [(''Content-Type'', [''text/plain''])], Body = ''payload''\<rparr>"



section \<open>Lemmas\<close>

subsection \<open>Initialize and the handler table\<close>


lemma GetRPPort_positive: "0 < fst (GetRPPort wd ip u p)"
  by (simp add: GetRPPort_def Let_def split: sum.splits)

lemma register_seq_fresh: "register_seq [] handler_table = (None, handler_table)"
  by (simp add: handler_table_def ServeMux_HandleFunc_def)

lemma setupHandlers_frame:
  "setupHandlers c = (p, c') \<Longrightarrow>
     config c' = config c \<and> serverPort c' = serverPort c \<and> server c' = server c \<and>
     consoleHTML c' = consoleHTML c"
  by (auto simp: setupHandlers_def split: prod.splits)

lemma Initialize_fresh_success:
  assumes "Initialize wd c = (Returned None, c')" and "mux c = []"
  shows "tmpl_parse_err wd = None \<and> tmpl_exec_err wd = None \<and>
         (ServerPort (config c) = 0 \<longrightarrow> (\<exists>p. net_Listen0 wd = Inr p \<and> serverPort c' = p)) \<and>
         (ServerPort (config c) \<noteq> 0 \<longrightarrow> serverPort c' = ServerPort (config c)) \<and>
         config c' = (config c)\<lparr>RPPort := resolved_RPPort wd (config c)\<rparr> \<and>
         server c' = server c \<and> mux c' = handler_table \<and>
         consoleHTML c' = htmlTemplate_Execute (tmpl_static wd)
            \<lparr>d_BMCIP = BMCIP (config c), d_RPPort = resolved_RPPort wd (config c),
             d_BMCUsername = Username (config c), d_BMCPassword = Password (config c)\<rparr>"
  using assms
  by (auto simp: Initialize_def generateHTML_def findAvailablePort_def setupHandlers_def
      register_seq_fresh resolved_RPPort_def Let_def
      split: if_splits prod.splits option.splits sum.splits)




lemma header_put_fresh: "k \<notin> fst ` set h \<Longrightarrow> header_put h k vs = h @ [(k, vs)]"
  by (induction h k vs rule: header_put.induct) auto

lemma header_put_last: "k \<notin> fst ` set h \<Longrightarrow> header_put (h @ [(k, old)]) k vs = h @ [(k, vs)]"
  by (induction h k vs rule: header_put.induct) auto

lemma map_of_fresh: "k \<notin> fst ` set h \<Longrightarrow> map_of h k = None"
  by (simp add: map_of_eq_None_iff)

lemma header_values_fresh: "k \<notin> fst ` set h \<Longrightarrow> header_values h k = []"
  by (simp add: header_values_def map_of_fresh)

lemma header_values_last: "k \<notin> fst ` set h \<Longrightarrow> header_values (h @ [(k, vs)]) k = vs"
  by (simp add: header_values_def map_add_def map_of_fresh)

lemma add_values_last:
  "CanonicalMIMEHeaderKey k = k \<Longrightarrow> k \<notin> fst ` set h \<Longrightarrow>
   add_values (h @ [(k, old)]) k vs = h @ [(k, old @ vs)]"
proof (induction vs arbitrary: old)
  case Nil
  then show ?case by simp
next
  case (Cons v vs)
  have "Header_Add (h @ [(k, old)]) k v = h @ [(k, old @ [v])]"
    using Cons.prems by (simp add: Header_Add_def header_values_last header_put_last)
  then show ?case using Cons by simp
qed

lemma add_values_fresh:
  assumes "CanonicalMIMEHeaderKey k = k" and "k \<notin> fst ` set h" and "vs \<noteq> []"
  shows "add_values h k vs = h @ [(k, vs)]"
proof (cases vs)
  case Nil
  with assms show ?thesis by simp
next
  case (Cons v rest)
  have "Header_Add h k v = h @ [(k, [v])]"
    using assms by (simp add: Header_Add_def header_values_fresh header_put_fresh)
  then show ?thesis using Cons assms add_values_last [of k h "[v]" rest] by simp
qed

lemma copy_header_append:
  assumes "distinct (map fst (dst @ src))"
    and "list_all (\<lambda>(k, vs). CanonicalMIMEHeaderKey k = k \<and> vs \<noteq> []) src"
  shows "copy_header dst src = dst @ src"
  using assms
proof (induction src arbitrary: dst)
  case Nil
  then show ?case by simp
next
  case (Cons e src)
  obtain k vs where e: "e = (k, vs)" by (cases e)
  have fresh: "k \<notin> fst ` set dst" using Cons.prems(1) e by auto
  have step: "add_values dst k vs = dst @ [(k, vs)]"
    using Cons.prems(2) e fresh by (simp add: add_values_fresh)
  have "copy_header (dst @ [(k, vs)]) src = (dst @ [(k, vs)]) @ src"
    using Cons.prems e by (intro Cons.IH) auto
  then show ?case using e step by simp
qed

lemma copy_header_canonical: "canonical_header h \<Longrightarrow> copy_header [] h = h"
  using copy_header_append [of "[]" h] by (simp add: canonical_header_def)

lemma canonical_Content_Type: "CanonicalMIMEHeaderKey ''Content-Type'' = ''Content-Type''"
  by code_simp

lemma cleanPath_rooted: "prefix ''/'' (cleanPath p)"
  by (simp add: cleanPath_def path_Clean_def Let_def)

lemma match_some: "ServeMux_match m path = Some (p, h) \<Longrightarrow> (p, h) \<in> set m \<and> pathMatch p path"
  by (induction m path arbitrary: p h rule: ServeMux_match.induct)
     (auto split: option.splits if_splits)

lemma match_none: "ServeMux_match m path = None \<Longrightarrow> (p, h) \<in> set m \<Longrightarrow> \<not> pathMatch p path"
  by (induction m path rule: ServeMux_match.induct)
     (auto split: option.splits if_splits)


lemma findHandler_route:
  "ServeMux_findHandler m r = Route h \<Longrightarrow> ServeMux_lookup m (URL_Path r) = Route h"
  by (auto simp: ServeMux_findHandler_def Let_def split: if_splits)

lemma lookup_route:
  "ServeMux_lookup m path = Route h \<Longrightarrow> \<exists>p. (p, h) \<in> set m \<and> pathMatch p path"
  by (auto simp: ServeMux_lookup_def split: option.splits dest: match_some)

lemma lookup_proxy_allow_listed:
  "ServeMux_lookup handler_table path = Route proxyHandler_fn \<Longrightarrow> allow_listed path"
  by (auto simp: allow_listed_def list_ex_iff dest!: lookup_route)

lemma lookup_cert:
  "ServeMux_lookup handler_table path = Route certHandler_fn \<Longrightarrow> path = ''/cert.pem''"
  by (auto simp: handler_table_def pathMatch_def dest!: lookup_route)

lemma lookup_rooted:
  assumes "prefix ''/'' path"
  shows "ServeMux_lookup handler_table path \<noteq> NoRoute"
proof
  assume "ServeMux_lookup handler_table path = NoRoute"
  then have "ServeMux_match handler_table path = None"
    by (simp add: ServeMux_lookup_def split: option.splits prod.splits)
  moreover have "(''/'', consoleHandler_fn) \<in> set handler_table"
    by (simp add: handler_table_def)
  ultimately have "\<not> pathMatch ''/'' path" by (rule match_none)
  then show False using assms by (simp add: pathMatch_def)
qed

lemma findHandler_NoRoute:
  "ServeMux_findHandler m r = NoRoute \<Longrightarrow> Method r \<noteq> ''CONNECT'' \<Longrightarrow>
   ServeMux_lookup m (URL_Path r) = NoRoute \<and> cleanPath (URL_Path r) = URL_Path r"
  by (auto simp: ServeMux_findHandler_def Let_def split: if_splits)

lemma console_response:
  "consoleHandler c newResponseWriter r =
     \<lparr>w_Header = [(''Content-Type'', [''text/html''])], w_status = Some 200,
      w_body = consoleHTML c\<rparr>"
  by (simp add: consoleHandler_def newResponseWriter_def Write_def WriteHeader_def
      Header_Set_def canonical_Content_Type)

lemma serve_other_path:
  assumes m: "mux c = handler_table"
    and cert: "URL_Path r \<noteq> ''/cert.pem''"
    and allow: "\<not> allow_listed (URL_Path r)"
  shows "snd (serve wd c r) = []"
    and "Method r \<noteq> ''CONNECT'' \<Longrightarrow> fst (serve wd c r) \<noteq> NotFound"
    and "cleanPath (URL_Path r) = URL_Path r \<Longrightarrow> URL_Path r \<noteq> ''/SDK_Pilot4'' \<Longrightarrow>
         serve wd c r =
           (Handled \<lparr>w_Header = [(''Content-Type'', [''text/html''])], w_status = Some 200,
                     w_body = consoleHTML c\<rparr>, [])"
proof -
  have no_proxy: "ServeMux_findHandler handler_table r \<noteq> Route proxyHandler_fn"
    using allow by (auto dest!: findHandler_route lookup_proxy_allow_listed)
  have no_cert: "ServeMux_findHandler handler_table r \<noteq> Route certHandler_fn"
    using cert by (auto dest!: findHandler_route lookup_cert)
  show "snd (serve wd c r) = []"
    using no_proxy by (auto simp: serve_def m split: route.splits handler.splits)
  show "fst (serve wd c r) \<noteq> NotFound" if "Method r \<noteq> ''CONNECT''"
  proof -
    have "ServeMux_findHandler handler_table r \<noteq> NoRoute"
    proof
      assume "ServeMux_findHandler handler_table r = NoRoute"
      from findHandler_NoRoute [OF this that]
      have "ServeMux_lookup handler_table (URL_Path r) = NoRoute"
        and "cleanPath (URL_Path r) = URL_Path r" by auto
      moreover have "prefix ''/'' (cleanPath (URL_Path r))" by (rule cleanPath_rooted)
      ultimately show False using lookup_rooted by auto
    qed
    then show ?thesis
      using no_proxy by (auto simp: serve_def m split: route.splits handler.splits)
  qed
  show "serve wd c r =
           (Handled \<lparr>w_Header = [(''Content-Type'', [''text/html''])], w_status = Some 200,
                     w_body = consoleHTML c\<rparr>, [])"
    if clean: "cleanPath (URL_Path r) = URL_Path r" and tree: "URL_Path r \<noteq> ''/SDK_Pilot4''"
  proof -
    have rooted: "prefix ''/'' (URL_Path r)" using cleanPath_rooted [of "URL_Path r"] clean by simp
    have star: "URL_Path r \<noteq> ''*''" using rooted by auto
    have nored: "\<not> shouldRedirect handler_table (URL_Path r)"
      using tree cert allow
      by (auto simp: shouldRedirect_def handler_table_def allow_listed_def pathMatch_def)
    have lk: "ServeMux_findHandler handler_table r = ServeMux_lookup handler_table (URL_Path r)"
      using nored clean by (simp add: ServeMux_findHandler_def Let_def)
    have "ServeMux_lookup handler_table (URL_Path r) = Route consoleHandler_fn"
    proof (cases "ServeMux_lookup handler_table (URL_Path r)")
      case (Route h)
      then show ?thesis using no_proxy no_cert lk by (cases h) auto
    next
      case (RedirectTo u)
      then show ?thesis by (simp add: ServeMux_lookup_def split: option.splits prod.splits)
    next
      case NoRoute
      then show ?thesis using lookup_rooted [OF rooted] by simp
    qed
    then show ?thesis using star lk by (simp add: serve_def m console_response)
  qed
qed



lemma findHandler_unclean:
  "Method r \<noteq> ''CONNECT'' \<Longrightarrow> cleanPath (URL_Path r) \<noteq> URL_Path r \<Longrightarrow>
   \<exists>u. ServeMux_findHandler m r = RedirectTo u"
  by (simp add: ServeMux_findHandler_def Let_def)

lemma proxy_requests:
  "snd (proxySDKHandler wd c w r) =
     (if validMethod (if Method r = [] then ''GET'' else Method r) \<and>
         url_parses wd (''https://'' @ BMCIP (config c) @ URL_Path r)
      then [\<lparr>req_Method = (if Method r = [] then ''GET'' else Method r),
             req_URL = ''https://'' @ BMCIP (config c) @ URL_Path r,
             req_Header = copy_header [] (Header r), req_BasicAuth = None, req_Body = None\<rparr>]
      else [])"
  by (simp add: proxySDKHandler_def http_NewRequest_def Let_def split: sum.splits)

lemma run_ops_frame:
  "config (run_ops c ops) = config c \<and> consoleHTML (run_ops c ops) = consoleHTML c \<and>
   serverPort (run_ops c ops) = serverPort c \<and> mux (run_ops c ops) = mux c"
proof (induction ops arbitrary: c)
  case Nil
  then show ?case by (simp add: run_ops_def)
next
  case (Cons a ops)
  have step: "config (run_op c a) = config c \<and> consoleHTML (run_op c a) = consoleHTML c \<and>
      serverPort (run_op c a) = serverPort c \<and> mux (run_op c a) = mux c"
    by (cases a) (simp_all add: Start_def Stop_def Let_def split: option.splits)
  have "run_ops c (a # ops) = run_ops (run_op c a) ops" by (simp add: run_ops_def)
  then show ?case using Cons [of "run_op c a"] step by simp
qed

lemma serve_root:
  assumes "mux c = handler_table" and "URL_Path r = ''/''"
  shows "serve wd c r =
     (Handled \<lparr>w_Header = [(''Content-Type'', [''text/html''])], w_status = Some 200,
               w_body = consoleHTML c\<rparr>, [])"
proof -
  have "cleanPath ''/'' = ''/''" by (simp add: cleanPath_def path_Clean_def)
  moreover have "\<not> allow_listed ''/''"
    by (simp add: allow_listed_def handler_table_def pathMatch_def)
  ultimately show ?thesis using assms serve_other_path(3) [of c r wd] by simp
qed

lemma Initialize_frame_any:
  assumes "Initialize wd c = (out, c')"
  shows "config c' = (config c)\<lparr>RPPort := RPPort (config c')\<rparr> \<and>
         (RPPort (config c) \<noteq> 0 \<longrightarrow> RPPort (config c') = RPPort (config c)) \<and>
         server c' = server c"
  using assms
  by (auto simp: Initialize_def generateHTML_def findAvailablePort_def Let_def
      split: if_splits prod.splits option.splits sum.splits dest!: setupHandlers_frame)

subsection \<open>Escaping and opening braces\<close>

lemma specials_not_plain:
  "\<not> plain_byte (CHR 0x00)" "\<not> plain_byte (CHR 0x22)" "\<not> plain_byte (CHR ''&'')"
  "\<not> plain_byte (CHR 0x27)" "\<not> plain_byte (CHR ''+'')" "\<not> plain_byte (CHR ''<'')"
  "\<not> plain_byte (CHR ''>'')" "\<not> plain_byte (CHR 0x60)" "\<not> plain_byte (CHR ''/'')"
  "\<not> plain_byte (CHR 0x5C)" "\<not> plain_byte (CHR 0xE2)" "\<not> plain_byte (CHR 0x7B)"
  "\<not> plain_byte (CHR 0x09)" "\<not> plain_byte (CHR 0x0A)" "\<not> plain_byte (CHR 0x0C)"
  "\<not> plain_byte (CHR 0x0D)"
  by (simp_all add: plain_byte_def isLowerAZ_def isUpperAZ_def isDigit09_def)







lemma plain_lbrace: "list_all plain_byte s \<Longrightarrow> lbrace \<notin> set s"
  using specials_not_plain(12) by (auto simp: list_all_iff lbrace_def)
















subsection \<open>The example sessions\<close>

lemma bmc_world_fields:
  "url_parses (bmc_world body doc) = (\<lambda>u. True)"
  "json_read (bmc_world body doc) = (\<lambda>b. if b = body then doc else Malformed)"
  "tmpl_parse_err (bmc_world body doc) = None"
  "tmpl_exec_err (bmc_world body doc) = None"
  "tmpl_static (bmc_world body doc) = example_static"
  "net_Listen0 (bmc_world body doc) = Inr 49152"
  "server_Close (bmc_world body doc) = None"
  by (simp_all add: bmc_world_def)

lemma bmc_world_lookup:
  "client_Do (bmc_world body doc)
     \<lparr>req_Method = ''GET'', req_URL = ''https://10.145.127.12/api/providers/rp_port'',
      req_Header = [], req_BasicAuth = auth, req_Body = None\<rparr> =
   Inr \<lparr>StatusCode = 200, resp_Header = [(''Content-Type'', [''application/json''])],
        resp_Body = body\<rparr>"
  by (simp add: bmc_world_def suffix_to_prefix)

lemma valid_GET: "validMethod ''GET''"
  by code_simp

lemma bmc_world_GetRPPort:
  "GetRPPort (bmc_world body doc) ''10.145.127.12'' u p =
     (if 0 < fst (Decode_Port doc) then (fst (Decode_Port doc), None) else (3900, None))"
  by (simp add: GetRPPort_def http_NewRequest_def valid_GET bmc_world_fields bmc_world_lookup)

lemma Decode_examples:
  "Decode_Port doc_3901 = (3901, None)"
  "Decode_Port doc_dup = (3901, Some (Error ''json: cannot unmarshal value''))"
  "Decode_Port doc_70000 = (70000, None)"
  by (simp_all add: Decode_Port_def doc_3901_def doc_dup_def doc_70000_def fits_int_def
      toLowerASCII_def isUpperAZ_def)

lemma bmc_world_Initialize:
  assumes "BMCIP cfg = ''10.145.127.12''" and "RPPort cfg = 0" and "0 < fst (Decode_Port doc)"
  shows "Initialize (bmc_world body doc) (NewConsole cfg) =
     (Returned None,
      \<lparr>config = cfg\<lparr>RPPort := fst (Decode_Port doc)\<rparr>,
       serverPort = (if ServerPort cfg = 0 then 49152 else ServerPort cfg),
       server = None,
       consoleHTML = htmlTemplate_Execute example_static
          \<lparr>d_BMCIP = ''10.145.127.12'', d_RPPort = fst (Decode_Port doc),
           d_BMCUsername = Username cfg, d_BMCPassword = Password cfg\<rparr>,
       mux = handler_table\<rparr>)"
  using assms
  by (simp add: Initialize_def NewConsole_def bmc_world_GetRPPort generateHTML_def
      bmc_world_fields findAvailablePort_def setupHandlers_def register_seq_fresh)

lemma started_example_eq:
  "started_example =
     \<lparr>config = programmatic_config\<lparr>RPPort := 3901\<rparr>, serverPort = 8443,
      server = Some \<lparr>Addr = '':'' @ Itoa 8443, TLS_MinVersion = ''TLS1.2'', srv_closed = False\<rparr>,
      consoleHTML = htmlTemplate_Execute example_static
         \<lparr>d_BMCIP = ''10.145.127.12'', d_RPPort = 3901,
          d_BMCUsername = ''admin'', d_BMCPassword = ''password''\<rparr>,
      mux = handler_table\<rparr>"
  by (simp add: started_example_def bmc_world_Initialize Decode_examples Start_def Let_def
      programmatic_config_def)

lemma programmatic_Initialize:
  "Initialize (bmc_world body_3901 doc_3901) (NewConsole programmatic_config) =
     (Returned None, snd (Initialize (bmc_world body_3901 doc_3901) (NewConsole programmatic_config)))"
  by (simp add: bmc_world_Initialize programmatic_config_def Decode_examples)

lemma simple_Initialize:
  "Initialize (bmc_world body_3901 doc_3901) (NewConsole simple_config) =
     (Returned None, snd (Initialize (bmc_world body_3901 doc_3901) (NewConsole simple_config)))"
  by (simp add: bmc_world_Initialize simple_config_def Decode_examples)

section \<open>The claims\<close>

subsection \<open>C7: an explicit listen port is the port of the session\<close>

text \<open>
  C7. For every configuration with an explicit (non-zero) listen port, \<open>GetPort()\<close> called
  after a successful \<open>Initialize\<close> returns exactly that configured port.
\<close>

theorem GetPort_explicit_listen_port:
  assumes "Initialize wd c = (Returned None, c')" and "ServerPort (config c) \<noteq> 0"
  shows "GetPort c' = ServerPort (config c)"
  using assms
  by (auto simp: Initialize_def generateHTML_def GetPort_def Let_def
      split: if_splits prod.splits option.splits dest!: setupHandlers_frame)

text \<open>The session of \<open>programmaticExample\<close>, configured for port 8443.\<close>

theorem GetPort_explicit_listen_port_witness:
  "GetPort (snd (Initialize (bmc_world body_3901 doc_3901) (NewConsole programmatic_config))) = 8443"
proof -
  let ?w = "bmc_world body_3901 doc_3901"
  have init: "Initialize ?w (NewConsole programmatic_config) =
      (Returned None, snd (Initialize ?w (NewConsole programmatic_config)))"
    by (simp add: bmc_world_Initialize programmatic_config_def Decode_examples)
  have port: "ServerPort (config (NewConsole programmatic_config)) \<noteq> 0"
    by (simp add: NewConsole_def programmatic_config_def)
  show ?thesis
    using GetPort_explicit_listen_port [OF init port]
    by (simp add: NewConsole_def programmatic_config_def)
qed

subsection \<open>C8: Stop before Start\<close>

text \<open>
  C8. Calling \<open>Stop\<close> on a session that was never started (its server handle is nil) is a
  no-op that returns no error and leaves the session state unchanged.
\<close>

theorem Stop_before_Start:
  assumes "server c = None"
  shows "Stop wd c = (None, c)"
  using assms by (simp add: Stop_def)

text \<open>A session just created, and the same session after \<open>Initialize\<close>.\<close>

theorem Stop_before_Start_witness:
  "Stop (bmc_world body_3901 doc_3901) (NewConsole simple_config) = (None, NewConsole simple_config) \<and>
   Stop (bmc_world body_3901 doc_3901)
     (snd (Initialize (bmc_world body_3901 doc_3901) (NewConsole simple_config))) =
   (None, snd (Initialize (bmc_world body_3901 doc_3901) (NewConsole simple_config)))"
proof -
  let ?w = "bmc_world body_3901 doc_3901"
  have a: "server (NewConsole simple_config) = None" by (simp add: NewConsole_def)
  have b: "server (snd (Initialize ?w (NewConsole simple_config))) = None"
    by (simp add: bmc_world_Initialize simple_config_def Decode_examples)
  show ?thesis
    using Stop_before_Start [OF a, of ?w] Stop_before_Start [OF b, of ?w] by simp
qed

subsection \<open>C4: Start called twice\<close>



subsection \<open>C5: the range of the two ports\<close>

text \<open>
  C5 as stated (after a successful \<open>Initialize\<close> both ports lie in [1, 65535]) fails:
  \<open>Initialize\<close> checks no range. With a BMC that reports port 70000 and a configured
  listen port 70000, \<open>Initialize\<close> succeeds and both fields hold 70000.
\<close>

theorem ports_out_of_range_counterexample:
  "fst (Initialize (bmc_world body_70000 doc_70000)
         (NewConsole (programmatic_config\<lparr>ServerPort := 70000\<rparr>))) = Returned None \<and>
   RPPort (config (snd (Initialize (bmc_world body_70000 doc_70000)
         (NewConsole (programmatic_config\<lparr>ServerPort := 70000\<rparr>))))) = 70000 \<and>
   serverPort (snd (Initialize (bmc_world body_70000 doc_70000)
         (NewConsole (programmatic_config\<lparr>ServerPort := 70000\<rparr>)))) = 70000 \<and>
   \<not> valid_port 70000"
  by (simp add: bmc_world_Initialize programmatic_config_def Decode_examples valid_port_def)

text \<open>
  C5, amended. After \<open>Initialize\<close> returns successfully on a new session, both port fields
  hold a value in [1, 65535] provided the values they are copied from do: each port set
  in the configuration lies in that range, the port the lookup returns is at most 65535
  (it is always positive), and the port the operating system assigns lies in that range.
\<close>

theorem ports_valid_when_inputs_valid:
  assumes "Initialize wd (NewConsole cfg) = (Returned None, c')"
    and "RPPort cfg = 0 \<or> valid_port (RPPort cfg)"
    and "ServerPort cfg = 0 \<or> valid_port (ServerPort cfg)"
    and "fst (GetRPPort wd (BMCIP cfg) (Username cfg) (Password cfg)) \<le> 65535"
    and "case net_Listen0 wd of Inl e \<Rightarrow> True | Inr p \<Rightarrow> valid_port p"
  shows "valid_port (RPPort (config c')) \<and> valid_port (serverPort c')"
proof -
  have m: "mux (NewConsole cfg) = []" and c: "config (NewConsole cfg) = cfg"
    by (simp_all add: NewConsole_def)
  note s = Initialize_fresh_success [OF assms(1) m, unfolded c]
  have "valid_port (resolved_RPPort wd cfg)"
    using assms(2,4) GetRPPort_positive [of wd "BMCIP cfg" "Username cfg" "Password cfg"]
    by (auto simp: resolved_RPPort_def valid_port_def)
  moreover have "valid_port (serverPort c')"
    using s assms(3,5) by (cases "ServerPort cfg = 0") auto
  ultimately show ?thesis using s by simp
qed

text \<open>The session of \<open>simpleConsoleExample\<close>: both ports unset, the BMC reports 3901.\<close>

theorem ports_valid_when_inputs_valid_witness:
  "valid_port (RPPort (config (snd (Initialize (bmc_world body_3901 doc_3901) (NewConsole simple_config))))) \<and>
   valid_port (serverPort (snd (Initialize (bmc_world body_3901 doc_3901) (NewConsole simple_config))))"
proof -
  let ?w = "bmc_world body_3901 doc_3901"
  have init: "Initialize ?w (NewConsole simple_config) =
      (Returned None, snd (Initialize ?w (NewConsole simple_config)))"
    by (simp add: bmc_world_Initialize simple_config_def Decode_examples)
  have a: "RPPort simple_config = 0 \<or> valid_port (RPPort simple_config)"
    and b: "ServerPort simple_config = 0 \<or> valid_port (ServerPort simple_config)"
    by (simp_all add: simple_config_def)
  have c: "fst (GetRPPort ?w (BMCIP simple_config) (Username simple_config) (Password simple_config)) \<le> 65535"
    by (simp add: simple_config_def bmc_world_GetRPPort Decode_examples)
  have d: "case net_Listen0 ?w of Inl e \<Rightarrow> True | Inr p \<Rightarrow> valid_port p"
    by (simp add: bmc_world_fields valid_port_def)
  show ?thesis using ports_valid_when_inputs_valid [OF init a b c d] .
qed

subsection \<open>C2: the remote-presence port lookup\<close>




subsection \<open>C1: paths that no pattern but the root pattern matches\<close>

text \<open>
  C1 as stated (such a request gets a not-found response) fails: \<open>setupHandlers\<close>
  registers the console handler under the pattern \<open>/\<close>, which in a \<open>ServeMux\<close> matches
  every path that no longer pattern matches, and \<open>consoleHandler\<close> does not look at the
  path. A request for \<open>/favicon.ico\<close> is answered with status 200 and the rendered page.
  (The BMC is not contacted, as the claim says.)
\<close>

theorem unknown_path_counterexample:
  "URL_Path favicon_request \<noteq> ''/'' \<and> URL_Path favicon_request \<noteq> ''/cert.pem'' \<and>
   \<not> allow_listed (URL_Path favicon_request) \<and>
   fst (serve (bmc_world body_3901 doc_3901) started_example favicon_request) \<noteq> NotFound \<and>
   serve (bmc_world body_3901 doc_3901) started_example favicon_request =
     (Handled \<lparr>w_Header = [(''Content-Type'', [''text/html''])], w_status = Some 200,
               w_body = consoleHTML started_example\<rparr>, [])"
proof -
  have a: "\<not> allow_listed ''/favicon.ico''"
    by (simp add: allow_listed_def handler_table_def pathMatch_def)
  have b: "cleanPath ''/favicon.ico'' = ''/favicon.ico''"
    by (simp add: cleanPath_def path_Clean_def)
  have m: "mux started_example = handler_table" by (simp add: started_example_eq)
  have "serve (bmc_world body_3901 doc_3901) started_example favicon_request =
     (Handled \<lparr>w_Header = [(''Content-Type'', [''text/html''])], w_status = Some 200,
               w_body = consoleHTML started_example\<rparr>, [])"
    using a b by (intro serve_other_path(3) [OF m]) (simp_all add: favicon_request_def)
  then show ?thesis using a by (simp add: favicon_request_def)
qed

text \<open>
  C1, amended. For every request to a started session whose path is not \<open>/cert.pem\<close> and
  matches no allow-listed pattern, the server does not contact the BMC, and (CONNECT
  requests aside) it does not answer not-found: a path in canonical form, other than
  \<open>/SDK_Pilot4\<close>, is answered by the console handler with status 200 and the rendered
  page, exactly like the root path; a path not in canonical form is answered by the mux
  with a redirect.
\<close>

theorem other_paths_get_the_page:
  assumes "Initialize wd0 (NewConsole cfg) = (Returned None, c0)"
    and "c = fst (snd (Start c0))"
    and "URL_Path r \<noteq> ''/cert.pem''"
    and "\<not> allow_listed (URL_Path r)"
  shows "snd (serve wd c r) = [] \<and>
     (Method r \<noteq> ''CONNECT'' \<longrightarrow> fst (serve wd c r) \<noteq> NotFound) \<and>
     (cleanPath (URL_Path r) = URL_Path r \<and> URL_Path r \<noteq> ''/SDK_Pilot4'' \<longrightarrow>
        serve wd c r =
          (Handled \<lparr>w_Header = [(''Content-Type'', [''text/html''])], w_status = Some 200,
                    w_body = consoleHTML c\<rparr>, [])) \<and>
     (cleanPath (URL_Path r) \<noteq> URL_Path r \<and> Method r \<noteq> ''CONNECT'' \<and> URL_Path r \<noteq> ''*'' \<longrightarrow>
        (\<exists>u. serve wd c r = (MovedPermanently u, [])))"
proof -
  have "mux (NewConsole cfg) = []" by (simp add: NewConsole_def)
  from Initialize_fresh_success [OF assms(1) this]
  have m: "mux c = handler_table" using assms(2) by (simp add: Start_def Let_def)
  have redirect: "\<exists>u. serve wd c r = (MovedPermanently u, [])"
    if unclean: "cleanPath (URL_Path r) \<noteq> URL_Path r" and notconnect: "Method r \<noteq> ''CONNECT''"
      and star: "URL_Path r \<noteq> ''*''"
  proof -
    obtain u where "ServeMux_findHandler (mux c) r = RedirectTo u"
      using findHandler_unclean [OF notconnect unclean] by blast
    then show ?thesis using star by (simp add: serve_def)
  qed
  show ?thesis
    using serve_other_path [OF m assms(3,4), of wd] redirect by blast
qed

text \<open>The request for \<open>/favicon.ico\<close> to the started example session.\<close>

theorem other_paths_get_the_page_witness:
  "snd (serve (bmc_world body_3901 doc_3901) started_example favicon_request) = [] \<and>
   fst (serve (bmc_world body_3901 doc_3901) started_example favicon_request) =
     Handled \<lparr>w_Header = [(''Content-Type'', [''text/html''])], w_status = Some 200,
              w_body = consoleHTML started_example\<rparr>"
proof -
  have a: "\<not> allow_listed (URL_Path favicon_request)"
    by (simp add: allow_listed_def handler_table_def pathMatch_def favicon_request_def)
  have b: "cleanPath (URL_Path favicon_request) = URL_Path favicon_request"
    by (simp add: cleanPath_def path_Clean_def favicon_request_def)
  have c: "URL_Path favicon_request \<noteq> ''/cert.pem''" "URL_Path favicon_request \<noteq> ''/SDK_Pilot4''"
    by (simp_all add: favicon_request_def)
  show ?thesis
    using other_paths_get_the_page [OF programmatic_Initialize started_example_def c(1) a,
        of "bmc_world body_3901 doc_3901"] b c(2)
    by simp
qed

subsection \<open>C3: the relay of an allow-listed path\<close>



subsection \<open>C10: the relay sends no body\<close>

text \<open>
  C10. Every request the proxy handler sends to the BMC carries no body (the body
  argument of \<open>http.NewRequest\<close> is nil), whatever body the caller supplied and whatever
  the method; the request is built from the method, the path and the headers alone, so
  the handler's whole result does not depend on the caller's body. A request is sent
  whenever the method is valid and the URL parses.
\<close>

theorem proxy_drops_body:
  "(\<forall>q \<in> set (snd (proxySDKHandler wd c w r)).
      req_Body q = None \<and>
      req_Method q = (if Method r = [] then ''GET'' else Method r) \<and>
      req_URL q = ''https://'' @ BMCIP (config c) @ URL_Path r \<and>
      req_Header q = copy_header [] (Header r)) \<and>
   (validMethod (Method r) \<and> url_parses wd (''https://'' @ BMCIP (config c) @ URL_Path r) \<longrightarrow>
      length (snd (proxySDKHandler wd c w r)) = 1) \<and>
   proxySDKHandler wd c w (r\<lparr>Body := b\<rparr>) = proxySDKHandler wd c w r"
proof -
  have "proxySDKHandler wd c w (r\<lparr>Body := b\<rparr>) = proxySDKHandler wd c w r"
    by (simp add: proxySDKHandler_def Let_def split: sum.splits)
  moreover have "validMethod (Method r) \<Longrightarrow> Method r \<noteq> []" by (simp add: validMethod_def)
  ultimately show ?thesis by (auto simp: proxy_requests)
qed

text \<open>A POST with the body \<open>payload\<close>: the BMC receives a POST without a body.\<close>

theorem proxy_drops_body_witness:
  "Body upload_request = ''payload'' \<and>
   snd (proxySDKHandler (bmc_world body_3901 doc_3901) started_example newResponseWriter upload_request) =
     [\<lparr>req_Method = ''POST'', req_URL = ''https://10.145.127.12/SDK_Pilot4/upload'',
       req_Header = [(''Content-Type'', [''text/plain''])], req_BasicAuth = None, req_Body = None\<rparr>]"
proof -
  let ?w = "bmc_world body_3901 doc_3901"
  let ?sent = "snd (proxySDKHandler ?w started_example newResponseWriter upload_request)"
  have ip: "BMCIP (config started_example) = ''10.145.127.12''"
    by (simp add: started_example_eq programmatic_config_def)
  have post: "validMethod ''POST''" by code_simp
  have "copy_header [] [(''Content-Type'', [''text/plain''])] = [(''Content-Type'', [''text/plain''])]"
    by (rule copy_header_canonical) (simp add: canonical_header_def canonical_Content_Type)
  then have hdr: "copy_header [] (Header upload_request) = [(''Content-Type'', [''text/plain''])]"
    by (simp add: upload_request_def)
  note t = proxy_drops_body [of ?w started_example newResponseWriter upload_request "[]"]
  have len: "length ?sent = 1"
    using t post by (simp add: upload_request_def bmc_world_fields)
  then obtain q where q: "?sent = [q]" by (cases ?sent) auto
  have "q = \<lparr>req_Method = ''POST'', req_URL = ''https://10.145.127.12/SDK_Pilot4/upload'',
       req_Header = [(''Content-Type'', [''text/plain''])], req_BasicAuth = None, req_Body = None\<rparr>"
    using t q hdr ip by (simp add: upload_request_def proxy_requests post bmc_world_fields)
  then show ?thesis using q by (simp add: upload_request_def)
qed

subsection \<open>C6: the root path and the rendered page\<close>




subsection \<open>C9: what Initialize changes, and the page afterwards\<close>

text \<open>
  C9. \<open>Initialize\<close> on a new session leaves the target host, the username, the password
  and the browser preference of the configuration as they were, whatever its outcome; it
  changes the remote-presence port only if that was unset (zero), and it never changes the
  configured listen port: the port it resolves goes to the session's own listen port,
  which is the configured port when that was set. It does not touch the server handle.
  Apart from that it writes the rendered page, once, from the configuration with the
  port resolved, and it installs the handler table. After a successful \<open>Initialize\<close>, no
  sequence of \<open>Start\<close>, \<open>Stop\<close> and served requests changes the configuration, the listen
  port or the page, and every request to the root path is answered with exactly the bytes
  rendered by \<open>Initialize\<close>.
\<close>

theorem Initialize_frame:
  assumes "Initialize wd (NewConsole cfg) = (out, c')"
  shows "BMCIP (config c') = BMCIP cfg \<and> Username (config c') = Username cfg \<and>
     Password (config c') = Password cfg \<and> UseFirefox (config c') = UseFirefox cfg \<and>
     ServerPort (config c') = ServerPort cfg \<and>
     (RPPort cfg \<noteq> 0 \<longrightarrow> RPPort (config c') = RPPort cfg) \<and>
     server c' = None \<and>
     (out = Returned None \<longrightarrow>
        config c' = cfg\<lparr>RPPort := resolved_RPPort wd cfg\<rparr> \<and>
        (ServerPort cfg \<noteq> 0 \<longrightarrow> serverPort c' = ServerPort cfg) \<and>
        mux c' = handler_table \<and>
        consoleHTML c' = htmlTemplate_Execute (tmpl_static wd)
          \<lparr>d_BMCIP = BMCIP cfg, d_RPPort = resolved_RPPort wd cfg,
           d_BMCUsername = Username cfg, d_BMCPassword = Password cfg\<rparr> \<and>
        (\<forall>ops. config (run_ops c' ops) = config c' \<and>
               serverPort (run_ops c' ops) = serverPort c' \<and>
               consoleHTML (run_ops c' ops) = consoleHTML c' \<and>
               (\<forall>wd' r. URL_Path r = ''/'' \<longrightarrow>
                  serve wd' (run_ops c' ops) r =
                    (Handled \<lparr>w_Header = [(''Content-Type'', [''text/html''])],
                              w_status = Some 200, w_body = consoleHTML c'\<rparr>, []))))"
proof -
  have fresh: "mux (NewConsole cfg) = []" and cfg: "config (NewConsole cfg) = cfg"
    and srv: "server (NewConsole cfg) = None"
    by (simp_all add: NewConsole_def)
  note any = Initialize_frame_any [OF assms, unfolded cfg srv]
  have fields: "BMCIP (config c') = BMCIP cfg \<and> Username (config c') = Username cfg \<and>
     Password (config c') = Password cfg \<and> UseFirefox (config c') = UseFirefox cfg \<and>
     ServerPort (config c') = ServerPort cfg"
  proof -
    have "config c' = cfg\<lparr>RPPort := RPPort (config c')\<rparr>" using any by simp
    then have "BMCIP (config c') = BMCIP (cfg\<lparr>RPPort := RPPort (config c')\<rparr>)"
      "Username (config c') = Username (cfg\<lparr>RPPort := RPPort (config c')\<rparr>)"
      "Password (config c') = Password (cfg\<lparr>RPPort := RPPort (config c')\<rparr>)"
      "UseFirefox (config c') = UseFirefox (cfg\<lparr>RPPort := RPPort (config c')\<rparr>)"
      "ServerPort (config c') = ServerPort (cfg\<lparr>RPPort := RPPort (config c')\<rparr>)"
      by simp_all
    then show ?thesis by simp
  qed
  have success: "config c' = cfg\<lparr>RPPort := resolved_RPPort wd cfg\<rparr> \<and>
        (ServerPort cfg \<noteq> 0 \<longrightarrow> serverPort c' = ServerPort cfg) \<and>
        mux c' = handler_table \<and>
        consoleHTML c' = htmlTemplate_Execute (tmpl_static wd)
          \<lparr>d_BMCIP = BMCIP cfg, d_RPPort = resolved_RPPort wd cfg,
           d_BMCUsername = Username cfg, d_BMCPassword = Password cfg\<rparr>"
    if "out = Returned None"
    using Initialize_fresh_success [OF assms [unfolded that] fresh, unfolded cfg] by simp
  have later: "config (run_ops c' ops) = config c' \<and>
               serverPort (run_ops c' ops) = serverPort c' \<and>
               consoleHTML (run_ops c' ops) = consoleHTML c' \<and>
               (\<forall>wd' r. URL_Path r = ''/'' \<longrightarrow>
                  serve wd' (run_ops c' ops) r =
                    (Handled \<lparr>w_Header = [(''Content-Type'', [''text/html''])],
                              w_status = Some 200, w_body = consoleHTML c'\<rparr>, []))"
    if "out = Returned None" for ops
  proof -
    have "mux (run_ops c' ops) = handler_table"
      using success [OF that] run_ops_frame [of c' ops] by simp
    then have "serve wd' (run_ops c' ops) r =
        (Handled \<lparr>w_Header = [(''Content-Type'', [''text/html''])],
                  w_status = Some 200, w_body = consoleHTML c'\<rparr>, [])"
      if "URL_Path r = ''/''" for wd' r
      using serve_root [OF _ that, of "run_ops c' ops" wd'] run_ops_frame [of c' ops] by simp
    then show ?thesis using run_ops_frame [of c' ops] by simp
  qed
  show ?thesis using fields any success later by blast
qed

text \<open>
  The session of \<open>simpleConsoleExample\<close>: after \<open>Initialize\<close>, \<open>Start\<close>, a relayed script, a
  second \<open>Start\<close> and \<open>Stop\<close>, the root path still serves the page that \<open>Initialize\<close>
  rendered, and the host and the credentials are those configured.
\<close>

theorem Initialize_frame_witness:
  "BMCIP (config (snd (Initialize (bmc_world body_3901 doc_3901) (NewConsole simple_config)))) =
     ''10.145.127.12'' \<and>
   Username (config (snd (Initialize (bmc_world body_3901 doc_3901) (NewConsole simple_config)))) =
     ''USERID'' \<and>
   RPPort (config (snd (Initialize (bmc_world body_3901 doc_3901) (NewConsole simple_config)))) = 3901 \<and>
   ServerPort (config (snd (Initialize (bmc_world body_3901 doc_3901) (NewConsole simple_config)))) = 0 \<and>
   serve (bmc_world body_3901 doc_3901)
     (run_ops (snd (Initialize (bmc_world body_3901 doc_3901) (NewConsole simple_config)))
        [OpStart, OpServe (bmc_world body_3901 doc_3901) script_request, OpStart,
         OpStop (bmc_world body_3901 doc_3901)])
     root_request =
     (Handled \<lparr>w_Header = [(''Content-Type'', [''text/html''])], w_status = Some 200,
               w_body = consoleHTML (snd (Initialize (bmc_world body_3901 doc_3901)
                                           (NewConsole simple_config)))\<rparr>, [])"
proof -
  let ?w = "bmc_world body_3901 doc_3901"
  have root: "URL_Path root_request = ''/''" by (simp add: root_request_def)
  have rp: "resolved_RPPort ?w simple_config = 3901"
    by (simp add: resolved_RPPort_def simple_config_def bmc_world_GetRPPort Decode_examples)
  show ?thesis
    using Initialize_frame [OF simple_Initialize] root rp
    by (simp add: simple_config_def)
qed

end
